theory Spec2Isabelle
  imports Complex_Main
begin

section \<open>The retrying fetch wrapper of \<^verbatim>\<open>src/scripts/monitor.js\<close> (fetch-with-retries.js)\<close>

text \<open>
  The wrapper \<^verbatim>\<open>fetchWithRetry(url, opts)\<close> issues one HTTP request, retries it on
  transient transport errors and on 429/5xx responses, and sleeps between attempts.
  The model makes its surroundings explicit:
  \<^item> the network, the random number generator, the clock and \<^verbatim>\<open>Date.parse\<close> are a
    \<open>world\<close> the function reads from;
  \<^item> a raised exception is the \<open>Inl\<close> branch of the result, a returned response the
    \<open>Inr\<close> branch;
  \<^item> the calls to \<^verbatim>\<open>fetch\<close> and to \<^verbatim>\<open>sleep\<close> are recorded in the result
    (\<open>attempts\<close>, \<open>sleeps\<close>);
  \<^item> the \<^verbatim>\<open>while\<close> loop is a recursive function with a termination proof.
  Console output and the per-attempt timer are left out: the former never reaches the
  control flow, the latter shows up only as a fetch that rejects with an \<^verbatim>\<open>AbortError\<close>.
  Numbers are mathematical integers and reals, not IEEE doubles.
\<close>

subsection \<open>Values\<close>

text \<open>
  An error object, reduced to the properties the wrapper reads. \<open>None\<close> stands for a
  property that is undefined (for \<open>err_code\<close>: or not a string).
\<close>

record js_error =
  err_name :: "string option"
  err_code :: "string option"
  err_message :: string

text \<open>A thrown JavaScript value is either falsy (\<^verbatim>\<open>null\<close>, \<^verbatim>\<open>undefined\<close>, ...) or an error object.\<close>

datatype thrown = Falsy | Err js_error

text \<open>
  A response object: the fields the wrapper reads, the value of
  \<^verbatim>\<open>res.headers.get("retry-after")\<close> (\<open>None\<close> when the header or the header table is
  missing), and the body (\<open>None\<close> for a response with a null body, such as the reply to a
  \<^verbatim>\<open>HEAD\<close> request or a 304) with the flag that says whether it has been read.
\<close>

record response =
  ok :: bool
  status :: int
  statusText :: string
  retryAfter :: "string option"
  body :: "string option"
  bodyUsed :: bool

datatype fetch_outcome = Resolved response | Rejected thrown

text \<open>
  The world of one call: \<open>fetch w url n\<close> is how the \<open>n\<close>-th call of \<^verbatim>\<open>fetch\<close>
  (attempt \<open>n\<close>, counted from 1) ends, \<open>random w n\<close> is what \<^verbatim>\<open>Math.random()\<close> returns
  and \<open>now w n\<close> what \<^verbatim>\<open>Date.now()\<close> returns during attempt \<open>n\<close> (each is called at
  most once per attempt), \<open>dateParse w\<close> is \<^verbatim>\<open>Date.parse\<close> (\<open>None\<close> for NaN).
\<close>

record world =
  fetch :: "string \<Rightarrow> nat \<Rightarrow> fetch_outcome"
  random :: "nat \<Rightarrow> real"
  now :: "nat \<Rightarrow> int"
  dateParse :: "string \<Rightarrow> int option"

text \<open>
  The module constants \<^verbatim>\<open>DEFAULT_RETRIES\<close>, \<^verbatim>\<open>DEFAULT_BACKOFF_BASE\<close> and
  \<^verbatim>\<open>MAX_RETRY_AFTER_SECS\<close> are read from the process environment when the module is
  loaded; they are parameters here, taken to be integers as their built-in values are.
\<close>

record defaults =
  DEFAULT_RETRIES :: int
  DEFAULT_BACKOFF_BASE :: int
  MAX_RETRY_AFTER_SECS :: int

definition builtin_defaults :: defaults where
  "builtin_defaults =
     \<lparr>DEFAULT_RETRIES = 3, DEFAULT_BACKOFF_BASE = 500, MAX_RETRY_AFTER_SECS = 120\<rparr>"

text \<open>
  The options the wrapper itself reads. \<open>opts_retries = Some n\<close> says that
  \<^verbatim>\<open>Number.isInteger(opts.retries)\<close> holds with value \<open>n\<close>; \<open>None\<close> is every other case
  (absent, not a number, fractional). The same for \<open>opts_backoffBase\<close>.
\<close>

record options =
  opts_retries :: "int option"
  opts_backoffBase :: "int option"

datatype wait_source = Header | Backoff

text \<open>
  What one call did: how it ended, how many times it called \<^verbatim>\<open>fetch\<close>, and the
  durations it passed to \<^verbatim>\<open>sleep\<close>, in order. Each duration is tagged with the branch
  that computed it: \<open>Header\<close> when the Retry-After value was kept (line 252 not taken),
  \<open>Backoff\<close> when \<^verbatim>\<open>jitter\<close> computed it.
\<close>

record result =
  outcome :: "thrown + response"
  attempts :: nat
  sleeps :: "(wait_source \<times> int) list"

subsection \<open>Built-in functions of the language\<close>

text \<open>
  \<^verbatim>\<open>parseInt(s, 10)\<close>: leading white space is skipped, one sign is read, then the longest
  run of decimal digits; with no digit the result is NaN (\<open>None\<close>). A header value is a
  byte string, so its code units lie below 256: the white space and line terminator
  characters of the language in that range are the seven below.
\<close>

definition isWhiteSpace :: "char \<Rightarrow> bool" where
  "isWhiteSpace c =
     (c \<in> set [CHR '' '', CHR 0x09, CHR 0x0A, CHR 0x0B, CHR 0x0C, CHR 0x0D, CHR 0xA0])"

definition decimalDigits :: "(char \<times> nat) list" where
  "decimalDigits =
     [(CHR ''0'', 0), (CHR ''1'', 1), (CHR ''2'', 2), (CHR ''3'', 3), (CHR ''4'', 4),
      (CHR ''5'', 5), (CHR ''6'', 6), (CHR ''7'', 7), (CHR ''8'', 8), (CHR ''9'', 9)]"

definition digitValue :: "char \<Rightarrow> nat option" where
  "digitValue c = map_of decimalDigits c"

fun readDigits :: "nat \<Rightarrow> string \<Rightarrow> nat" where
  "readDigits acc [] = acc"
| "readDigits acc (c # cs) =
     (case digitValue c of None \<Rightarrow> acc | Some d \<Rightarrow> readDigits (10 * acc + d) cs)"

definition parseInt10 :: "string \<Rightarrow> int option" where
  "parseInt10 s =
     (let t = dropWhile isWhiteSpace s;
          neg = (case t of [] \<Rightarrow> False | c # cs \<Rightarrow> c = CHR ''-'');
          u = (case t of [] \<Rightarrow> [] | c # cs \<Rightarrow> if c = CHR ''-'' \<or> c = CHR ''+'' then cs else t)
      in case u of
           [] \<Rightarrow> None
         | c # cs \<Rightarrow>
             (if digitValue c = None then None
              else Some ((if neg then - 1 else 1) * int (readDigits 0 u))))"

text \<open>
  \<^verbatim>\<open>res.text()\<close> of the Fetch API, which is not part of the repository. A response
  with a null body resolves to the empty string and stays as it is, every time. A body
  stream can be read once: the first read marks it used, a later read rejects. The first
  component is the text read (\<open>None\<close> when the read rejects), the second the response
  afterwards.
\<close>

definition text_of :: "response \<Rightarrow> string option \<times> response" where
  "text_of res =
     (case body res of
        None \<Rightarrow> (Some [], res)
      | Some b \<Rightarrow>
          if bodyUsed res then (None, res) else (Some b, res\<lparr>bodyUsed := True\<rparr>))"

subsection \<open>The functions of fetch-with-retries.js\<close>

definition transientCodes :: "string list" where
  "transientCodes =
     [''ECONNRESET'', ''ETIMEDOUT'', ''EAI_AGAIN'', ''ENOTFOUND'', ''EPIPE'', ''ECONNREFUSED'']"

fun isTransientError :: "thrown \<Rightarrow> bool" where
  "isTransientError Falsy = False"
| "isTransientError (Err e) =
     (if (case err_code e of None \<Rightarrow> False | Some c \<Rightarrow> c \<noteq> [] \<and> c \<in> set transientCodes)
      then True
      else if err_name e = Some ''FetchError'' \<or> err_name e = Some ''AbortError'' then True
      else False)"

text \<open>\<^verbatim>\<open>jitter(ms)\<close>, with the value \<open>r\<close> that \<^verbatim>\<open>Math.random()\<close> returns.\<close>

definition jitter :: "real \<Rightarrow> int \<Rightarrow> int" where
  "jitter r ms =
     (let factor = 3 / 10;
          delta = \<lfloor>real_of_int ms * factor * r\<rfloor>
      in ms - \<lfloor>real_of_int delta / 2\<rfloor> + delta)"

definition readResponseSnippet :: "response \<Rightarrow> nat \<Rightarrow> string \<times> response" where
  "readResponseSnippet res mx =
     (case text_of res of
        (Some t, res') \<Rightarrow> (take mx t, res')
      | (None, res') \<Rightarrow> (''<failed to read response body>'', res'))"

text \<open>Lines 237 to 251: the wait that the Retry-After header asks for, 0 when there is none.\<close>

definition retryAfterMs :: "defaults \<Rightarrow> world \<Rightarrow> nat \<Rightarrow> response \<Rightarrow> int" where
  "retryAfterMs D w attempt res =
     (case retryAfter res of
        None \<Rightarrow> 0
      | Some ra \<Rightarrow>
          if ra = [] then 0
          else
            (case parseInt10 ra of
               Some raInt \<Rightarrow> min raInt (MAX_RETRY_AFTER_SECS D) * 1000
             | None \<Rightarrow>
                 (case dateParse w ra of
                    None \<Rightarrow> 0
                  | Some retryDate \<Rightarrow>
                      (let secs = \<lfloor>real_of_int (retryDate - now w attempt) / 1000\<rfloor>
                       in max 0 (min secs (MAX_RETRY_AFTER_SECS D)) * 1000))))"

text \<open>Lines 237 to 255: the wait after a retryable status.\<close>

definition statusWait :: "defaults \<Rightarrow> world \<Rightarrow> int \<Rightarrow> nat \<Rightarrow> response \<Rightarrow> wait_source \<times> int" where
  "statusWait D w backoffBase attempt res =
     (let waitMs = retryAfterMs D w attempt res
      in if waitMs \<le> 0
         then (let base = backoffBase * 2 ^ (attempt - 1)
               in (Backoff, jitter (random w attempt) base))
         else (Header, waitMs))"

text \<open>Lines 276 and 277: the wait after a transient transport error.\<close>

definition errorWait :: "world \<Rightarrow> int \<Rightarrow> nat \<Rightarrow> wait_source \<times> int" where
  "errorWait w backoffBase attempt =
     (let base = backoffBase * 2 ^ (attempt - 1)
      in (Backoff, jitter (random w attempt) base))"

definition genericError :: "string \<Rightarrow> js_error" where
  "genericError url =
     \<lparr>err_name = Some ''Error'', err_code = None,
      err_message = ''fetch-with-retries: failed to fetch '' @ url\<rparr>"

text \<open>
  The \<^verbatim>\<open>while (attempt <= retries)\<close> loop with the two statements after it. The state
  of the loop is \<open>attempt\<close>, \<open>lastErr\<close> and the waits slept so far.
\<close>

function loop ::
  "defaults \<Rightarrow> world \<Rightarrow> string \<Rightarrow> int \<Rightarrow> int \<Rightarrow> nat \<Rightarrow> thrown \<Rightarrow> (wait_source \<times> int) list \<Rightarrow> result"
where
  "loop D w url retries backoffBase attempt lastErr slept =
     (if int attempt \<le> retries then
        (case fetch w url (Suc attempt) of
           Resolved res \<Rightarrow>
             if ok res then \<lparr>outcome = Inr res, attempts = Suc attempt, sleeps = slept\<rparr>
             else if (status res = 429 \<or> (500 \<le> status res \<and> status res < 600))
                     \<and> int (Suc attempt) \<le> retries
             then loop D w url retries backoffBase (Suc attempt) lastErr
                    (slept @ [statusWait D w backoffBase (Suc attempt)
                                (snd (readResponseSnippet res 1500))])
             else \<lparr>outcome = Inr (snd (readResponseSnippet res 1500)),
                   attempts = Suc attempt, sleeps = slept\<rparr>
         | Rejected err \<Rightarrow>
             if isTransientError err \<and> int (Suc attempt) \<le> retries
             then loop D w url retries backoffBase (Suc attempt) err
                    (slept @ [errorWait w backoffBase (Suc attempt)])
             else \<lparr>outcome = Inl err, attempts = Suc attempt, sleeps = slept\<rparr>)
      else \<lparr>outcome = Inl (case lastErr of Falsy \<Rightarrow> Err (genericError url) | Err e \<Rightarrow> Err e),
            attempts = attempt, sleeps = slept\<rparr>)"
  by pat_completeness auto
termination
  by (relation "measure (\<lambda>(D, w, url, retries, backoffBase, attempt, lastErr, slept).
                  nat (retries + 1 - int attempt))") auto

text \<open>Lines 200 and 201: an option that is not an integer gives way to the module constant.\<close>

definition retries_of :: "defaults \<Rightarrow> options \<Rightarrow> int" where
  "retries_of D opts = (case opts_retries opts of Some n \<Rightarrow> n | None \<Rightarrow> DEFAULT_RETRIES D)"

definition backoffBase_of :: "defaults \<Rightarrow> options \<Rightarrow> int" where
  "backoffBase_of D opts =
     (case opts_backoffBase opts of Some b \<Rightarrow> b | None \<Rightarrow> DEFAULT_BACKOFF_BASE D)"

definition fetchWithRetry :: "defaults \<Rightarrow> world \<Rightarrow> string \<Rightarrow> options \<Rightarrow> result" where
  "fetchWithRetry D w url opts =
     loop D w url (retries_of D opts) (backoffBase_of D opts) 0 Falsy []"

declare loop.simps [simp del]

subsection \<open>Describing a run\<close>

text \<open>
  Three notions read off the loop body, used to say what a whole call does:
  attempt \<open>k\<close> ends in \<^verbatim>\<open>continue\<close>; the wait slept after such an attempt; and what the
  call hands to its caller when attempt \<open>k\<close> is the last one.
\<close>

definition continues :: "world \<Rightarrow> string \<Rightarrow> int \<Rightarrow> nat \<Rightarrow> bool" where
  "continues w url retries k =
     (int k \<le> retries \<and>
      (case fetch w url k of
         Resolved res \<Rightarrow>
           \<not> ok res \<and> (status res = 429 \<or> (500 \<le> status res \<and> status res < 600))
       | Rejected err \<Rightarrow> isTransientError err))"

definition waitAfter :: "defaults \<Rightarrow> world \<Rightarrow> string \<Rightarrow> int \<Rightarrow> nat \<Rightarrow> wait_source \<times> int" where
  "waitAfter D w url backoffBase k =
     (case fetch w url k of
        Resolved res \<Rightarrow> statusWait D w backoffBase k (snd (readResponseSnippet res 1500))
      | Rejected err \<Rightarrow> errorWait w backoffBase k)"

definition finalOutcome :: "world \<Rightarrow> string \<Rightarrow> nat \<Rightarrow> thrown + response" where
  "finalOutcome w url k =
     (case fetch w url k of
        Resolved res \<Rightarrow> Inr (if ok res then res else snd (readResponseSnippet res 1500))
      | Rejected err \<Rightarrow> Inl err)"

subsection \<open>Concrete worlds\<close>

text \<open>A fresh response with the given status; \<open>ok\<close> as the Fetch API sets it (2xx).\<close>

definition mkResponse :: "int \<Rightarrow> string option \<Rightarrow> string \<Rightarrow> response" where
  "mkResponse st ra b =
     \<lparr>ok = (200 \<le> st \<and> st < 300), status = st, statusText = [], retryAfter = ra,
      body = Some b, bodyUsed = False\<rparr>"

text \<open>A fresh response with the given status and a null body.\<close>

definition nullBodyResponse :: "int \<Rightarrow> response" where
  "nullBodyResponse st =
     \<lparr>ok = (200 \<le> st \<and> st < 300), status = st, statusText = [], retryAfter = None,
      body = None, bodyUsed = False\<rparr>"

text \<open>A world whose fetch is given by \<open>f\<close> and whose random draws all equal \<open>r\<close>.\<close>

definition mkWorld :: "(nat \<Rightarrow> fetch_outcome) \<Rightarrow> real \<Rightarrow> world" where
  "mkWorld f r =
     \<lparr>fetch = (\<lambda>url. f), random = (\<lambda>n. r), now = (\<lambda>n. 0), dateParse = (\<lambda>s. None)\<rparr>"

definition noOptions :: options where
  "noOptions = \<lparr>opts_retries = None, opts_backoffBase = None\<rparr>"

text \<open>Every attempt is answered with 429 and no Retry-After; the body tells the attempts apart.\<close>

definition always429 :: world where
  "always429 = mkWorld (\<lambda>n. Resolved (mkResponse 429 None (replicate n CHR ''x''))) 0"


text \<open>Attempt 1 is answered with 429 and the given Retry-After value, attempt 2 with 200.\<close>

definition retryAfterThenOk :: "string \<Rightarrow> world" where
  "retryAfterThenOk ra =
     mkWorld (\<lambda>n. if n = 1 then Resolved (mkResponse 429 (Some ra) [])
                   else Resolved (mkResponse 200 None ''done'')) 0"

text \<open>Every attempt is answered with 200.\<close>

definition alwaysOk :: world where
  "alwaysOk = mkWorld (\<lambda>n. Resolved (mkResponse 200 None ''done'')) 0"

text \<open>Every attempt is answered with 404.\<close>

definition always404 :: world where
  "always404 = mkWorld (\<lambda>n. Resolved (mkResponse 404 None ''not found'')) 0"

text \<open>Every attempt fails with a permission error, which is not in the transient set.\<close>

definition permissionError :: js_error where
  "permissionError = \<lparr>err_name = Some ''Error'', err_code = Some ''EACCES'', err_message = []\<rparr>"

definition alwaysFatal :: world where
  "alwaysFatal = mkWorld (\<lambda>n. Rejected (Err permissionError)) 0"

text \<open>Every attempt fails with a timeout of the connection, which is in the transient set.\<close>

definition timedOutError :: js_error where
  "timedOutError = \<lparr>err_name = Some ''Error'', err_code = Some ''ETIMEDOUT'', err_message = []\<rparr>"

definition alwaysTimedOut :: world where
  "alwaysTimedOut = mkWorld (\<lambda>n. Rejected (Err timedOutError)) 0"

text \<open>Every attempt is answered with 404 and a null body, as a \<^verbatim>\<open>HEAD\<close> request is.\<close>

definition headNotFound :: world where
  "headNotFound = mkWorld (\<lambda>n. Resolved (nullBodyResponse 404)) 0"

section \<open>What a call does\<close>

subsection \<open>One iteration, and the whole loop\<close>

text \<open>
  An iteration either ends the call or sleeps and goes on with the next attempt. So a
  call that starts with budget makes attempts \<open>1, \<dots>, n\<close>, of which all but the last end in
  \<^verbatim>\<open>continue\<close>, and hands the outcome of attempt \<open>n\<close> to its caller.
\<close>

lemma loop_exit:
  "\<not> int attempt \<le> retries \<Longrightarrow>
   loop D w url retries backoffBase attempt lastErr slept =
     \<lparr>outcome = Inl (case lastErr of Falsy \<Rightarrow> Err (genericError url) | Err e \<Rightarrow> Err e),
      attempts = attempt, sleeps = slept\<rparr>"
  by (simp add: loop.simps)

lemma loop_continue:
  assumes "int attempt \<le> retries" and "continues w url retries (Suc attempt)"
  shows "\<exists>lastErr'. loop D w url retries backoffBase attempt lastErr slept =
           loop D w url retries backoffBase (Suc attempt) lastErr'
             (slept @ [waitAfter D w url backoffBase (Suc attempt)])"
  using assms
  by (subst loop.simps) (auto simp: continues_def waitAfter_def split: fetch_outcome.splits)

lemma loop_stop:
  assumes "int attempt \<le> retries" and "\<not> continues w url retries (Suc attempt)"
  shows "loop D w url retries backoffBase attempt lastErr slept =
           \<lparr>outcome = finalOutcome w url (Suc attempt), attempts = Suc attempt, sleeps = slept\<rparr>"
  using assms
  by (subst loop.simps) (auto simp: continues_def finalOutcome_def split: fetch_outcome.splits)

lemma loop_run:
  assumes "int a \<le> retries"
  shows "\<exists>n. a < n \<and> int n \<le> retries + 1
            \<and> (\<forall>k. a < k \<and> k < n \<longrightarrow> continues w url retries k)
            \<and> \<not> continues w url retries n
            \<and> loop D w url retries backoffBase a lastErr slept =
                \<lparr>outcome = finalOutcome w url n, attempts = n,
                 sleeps = slept @ map (waitAfter D w url backoffBase) [Suc a ..< n]\<rparr>"
  using assms
proof (induction "nat (retries - int a)" arbitrary: a lastErr slept)
  case 0
  then have "\<not> continues w url retries (Suc a)"
    by (simp add: continues_def)
  with 0 have "loop D w url retries backoffBase a lastErr slept =
      \<lparr>outcome = finalOutcome w url (Suc a), attempts = Suc a, sleeps = slept\<rparr>"
    by (simp add: loop_stop)
  with 0 \<open>\<not> continues w url retries (Suc a)\<close> show ?case
    by (intro exI [of _ "Suc a"]) auto
next
  case (Suc m)
  show ?case
  proof (cases "continues w url retries (Suc a)")
    case False
    with Suc.prems have "loop D w url retries backoffBase a lastErr slept =
        \<lparr>outcome = finalOutcome w url (Suc a), attempts = Suc a, sleeps = slept\<rparr>"
      by (simp add: loop_stop)
    with Suc.prems False show ?thesis
      by (intro exI [of _ "Suc a"]) auto
  next
    case True
    then have le: "int (Suc a) \<le> retries"
      by (simp add: continues_def)
    from loop_continue [OF Suc.prems True] obtain lastErr' where
      step: "loop D w url retries backoffBase a lastErr slept =
             loop D w url retries backoffBase (Suc a) lastErr'
               (slept @ [waitAfter D w url backoffBase (Suc a)])"
      by blast
    from Suc.hyps(2) have m: "m = nat (retries - int (Suc a))"
      by simp
    from Suc.hyps(1) [OF m le, of lastErr' "slept @ [waitAfter D w url backoffBase (Suc a)]"]
    obtain n where n: "Suc a < n" "int n \<le> retries + 1"
        "\<forall>k. Suc a < k \<and> k < n \<longrightarrow> continues w url retries k"
        "\<not> continues w url retries n"
        "loop D w url retries backoffBase (Suc a) lastErr'
           (slept @ [waitAfter D w url backoffBase (Suc a)]) =
         \<lparr>outcome = finalOutcome w url n, attempts = n,
          sleeps = (slept @ [waitAfter D w url backoffBase (Suc a)])
                     @ map (waitAfter D w url backoffBase) [Suc (Suc a) ..< n]\<rparr>"
      by blast
    have upt: "[Suc a ..< n] = Suc a # [Suc (Suc a) ..< n]"
      using n(1) by (simp add: upt_conv_Cons)
    have prefix: "\<forall>k. a < k \<and> k < n \<longrightarrow> continues w url retries k"
    proof (intro allI impI)
      fix k assume "a < k \<and> k < n"
      then have "k = Suc a \<or> (Suc a < k \<and> k < n)" by auto
      with True n(3) show "continues w url retries k" by blast
    qed
    show ?thesis
      using n(1,2,4) prefix
      by (intro exI [of _ n]) (simp add: step n(5) upt)
  qed
qed

lemma fetchWithRetry_run:
  assumes "0 \<le> retries_of D opts"
  shows "\<exists>n. 1 \<le> n \<and> int n \<le> retries_of D opts + 1
            \<and> (\<forall>k. 1 \<le> k \<and> k < n \<longrightarrow> continues w url (retries_of D opts) k)
            \<and> \<not> continues w url (retries_of D opts) n
            \<and> fetchWithRetry D w url opts =
                \<lparr>outcome = finalOutcome w url n, attempts = n,
                 sleeps = map (waitAfter D w url (backoffBase_of D opts)) [1 ..< n]\<rparr>"
proof -
  from assms have "int 0 \<le> retries_of D opts" by simp
  from loop_run [OF this, of w url D "backoffBase_of D opts" Falsy "[]"]
  obtain n where "0 < n" "int n \<le> retries_of D opts + 1"
      "\<forall>k. 0 < k \<and> k < n \<longrightarrow> continues w url (retries_of D opts) k"
      "\<not> continues w url (retries_of D opts) n"
      "loop D w url (retries_of D opts) (backoffBase_of D opts) 0 Falsy [] =
         \<lparr>outcome = finalOutcome w url n, attempts = n,
          sleeps = [] @ map (waitAfter D w url (backoffBase_of D opts)) [Suc 0 ..< n]\<rparr>"
    by blast
  then show ?thesis
    by (intro exI [of _ n]) (simp add: fetchWithRetry_def)
qed

lemma fetchWithRetry_no_budget:
  assumes "retries_of D opts < 0"
  shows "fetchWithRetry D w url opts =
           \<lparr>outcome = Inl (Err (genericError url)), attempts = 0, sleeps = []\<rparr>"
  using assms by (simp add: fetchWithRetry_def loop_exit)


subsection \<open>Attempts made and waits slept\<close>

text \<open>
  Attempt \<open>k\<close> is made in a call exactly when \<open>1 \<le> k\<close> and \<open>k \<le> attempts\<close> of its result.
  Such an attempt either ends in \<^verbatim>\<open>continue\<close> and is followed by another one, or is the
  last one and decides the outcome. The wait slept after attempt \<open>k\<close> is at position
  \<open>k - 1\<close> of \<open>sleeps\<close>.
\<close>

lemma made_attempt_retries:
  assumes "1 \<le> k" and "k \<le> attempts (fetchWithRetry D w url opts)"
  shows "0 \<le> retries_of D opts"
proof (rule ccontr)
  assume "\<not> 0 \<le> retries_of D opts"
  then have "attempts (fetchWithRetry D w url opts) = 0"
    by (simp add: fetchWithRetry_no_budget)
  with assms show False by simp
qed

lemma made_attempt_cases:
  assumes "1 \<le> k" and "k \<le> attempts (fetchWithRetry D w url opts)"
  shows "(k < attempts (fetchWithRetry D w url opts) \<and> continues w url (retries_of D opts) k)
       \<or> (k = attempts (fetchWithRetry D w url opts) \<and> \<not> continues w url (retries_of D opts) k
          \<and> outcome (fetchWithRetry D w url opts) = finalOutcome w url k)"
proof -
  from fetchWithRetry_run [OF made_attempt_retries [OF assms], of w url] obtain n where
    n: "\<forall>j. 1 \<le> j \<and> j < n \<longrightarrow> continues w url (retries_of D opts) j"
       "\<not> continues w url (retries_of D opts) n"
       "attempts (fetchWithRetry D w url opts) = n"
       "outcome (fetchWithRetry D w url opts) = finalOutcome w url n"
    by force
  from assms n(3) have "k < n \<or> k = n" by auto
  with assms(1) n show ?thesis by auto
qed

lemma sleeps_nth:
  assumes "1 \<le> k" and "k < attempts (fetchWithRetry D w url opts)"
  shows "sleeps (fetchWithRetry D w url opts) ! (k - 1) = waitAfter D w url (backoffBase_of D opts) k"
proof -
  from assms have "1 \<le> k" "k \<le> attempts (fetchWithRetry D w url opts)" by simp_all
  from fetchWithRetry_run [OF made_attempt_retries [OF this], of w url] obtain n where
    n: "attempts (fetchWithRetry D w url opts) = n"
       "sleeps (fetchWithRetry D w url opts) = map (waitAfter D w url (backoffBase_of D opts)) [1 ..< n]"
    by force
  from assms n(1) have "k - 1 < n - 1" by simp
  with assms(1) show ?thesis
    by (simp add: n(2))
qed

lemma readResponseSnippet_used:
  "body res \<noteq> None \<Longrightarrow> bodyUsed (snd (readResponseSnippet res mx))"
  by (auto simp: readResponseSnippet_def text_of_def)

lemma readResponseSnippet_fields:
  "ok (snd (readResponseSnippet res mx)) = ok res"
  "status (snd (readResponseSnippet res mx)) = status res"
  "retryAfter (snd (readResponseSnippet res mx)) = retryAfter res"
  "body (snd (readResponseSnippet res mx)) = body res"
  by (simp_all add: readResponseSnippet_def text_of_def split: option.splits)



lemma continues_prefix_lt:
  assumes "0 \<le> retries_of D opts"
    and "\<forall>j. 1 \<le> j \<and> j \<le> k \<longrightarrow> continues w url (retries_of D opts) j"
  shows "k < attempts (fetchWithRetry D w url opts)"
proof -
  from fetchWithRetry_run [OF assms(1), of w url] obtain n where
    n: "1 \<le> n" "\<not> continues w url (retries_of D opts) n"
       "attempts (fetchWithRetry D w url opts) = n"
    by force
  from n(1,2) assms(2) have "\<not> n \<le> k" by blast
  with n(3) show ?thesis by simp
qed

lemma continues_prefix_le:
  assumes "0 \<le> retries_of D opts" and "1 \<le> k"
    and "\<forall>j. 1 \<le> j \<and> j < k \<longrightarrow> continues w url (retries_of D opts) j"
  shows "k \<le> attempts (fetchWithRetry D w url opts)"
proof -
  from assms(3) have "\<forall>j. 1 \<le> j \<and> j \<le> k - 1 \<longrightarrow> continues w url (retries_of D opts) j"
    by auto
  from continues_prefix_lt [OF assms(1) this] show ?thesis by simp
qed

subsection \<open>Jitter and the Retry-After header\<close>









lemma parseInt10_Nil: "parseInt10 [] = None"
  by (simp add: parseInt10_def)


lemma retryAfterMs_integer:
  assumes "retryAfter res = Some ra" and "parseInt10 ra = Some H"
  shows "retryAfterMs D w k res = min H (MAX_RETRY_AFTER_SECS D) * 1000"
  using assms by (auto simp: retryAfterMs_def parseInt10_Nil)








subsection \<open>Evaluating concrete calls\<close>

lemmas world_simps = mkWorld_def mkResponse_def noOptions_def builtin_defaults_def
  retries_of_def backoffBase_of_def

lemmas run_simps = fetchWithRetry_def loop.simps statusWait_def errorWait_def retryAfterMs_def
  readResponseSnippet_def text_of_def jitter_def

lemmas parse_simps = parseInt10_def isWhiteSpace_def digitValue_def decimalDigits_def

section \<open>The claims\<close>

subsection \<open>The attempt budget\<close>

text \<open>
  Claim C1: for every url and every configuration whose retry count \<open>N\<close> is at least 0,
  one call of \<open>fetchWithRetry\<close> calls \<^verbatim>\<open>fetch\<close> at most \<open>N + 1\<close> times before it returns
  or raises. (The function is total, so every call does return or raise.)
\<close>

theorem fetchWithRetry_attempts_le:
  assumes "0 \<le> retries_of D opts"
  shows "int (attempts (fetchWithRetry D w url opts)) \<le> retries_of D opts + 1"
proof -
  from fetchWithRetry_run [OF assms, of w url] obtain n where
    "int n \<le> retries_of D opts + 1" "attempts (fetchWithRetry D w url opts) = n"
    by force
  then show ?thesis by simp
qed

text \<open>With the built-in three retries and a server that always answers 429, four attempts are made.\<close>

theorem fetchWithRetry_attempts_le_witness:
  "0 \<le> retries_of builtin_defaults noOptions \<and>
   attempts (fetchWithRetry builtin_defaults always429 ''u'' noOptions) = 4 \<and>
   int (attempts (fetchWithRetry builtin_defaults always429 ''u'' noOptions))
     \<le> retries_of builtin_defaults noOptions + 1"
proof -
  have h: "0 \<le> retries_of builtin_defaults noOptions"
    by (simp add: world_simps)
  have "attempts (fetchWithRetry builtin_defaults always429 ''u'' noOptions) = 4"
    by (simp add: run_simps world_simps always429_def)
  with h fetchWithRetry_attempts_le [OF h, of always429 "''u''"] show ?thesis
    by simp
qed

text \<open>
  Claim C10: when \<^verbatim>\<open>opts.retries\<close> is a negative integer, \<open>fetchWithRetry\<close> makes no
  attempt and sleeps never, and raises the generic error whose message is
  \<^verbatim>\<open>fetch-with-retries: failed to fetch\<close> followed by the url.
\<close>

theorem negative_retries_no_attempt:
  assumes "opts_retries opts = Some n" and "n < 0"
  shows "fetchWithRetry D w url opts =
           \<lparr>outcome = Inl (Err \<lparr>err_name = Some ''Error'', err_code = None,
                                err_message = ''fetch-with-retries: failed to fetch '' @ url\<rparr>),
            attempts = 0, sleeps = []\<rparr>"
proof -
  from assms have "retries_of D opts < 0"
    by (simp add: retries_of_def)
  then show ?thesis
    by (simp add: fetchWithRetry_no_budget genericError_def)
qed

theorem negative_retries_no_attempt_witness:
  "opts_retries \<lparr>opts_retries = Some (- 1), opts_backoffBase = None\<rparr> = Some (- 1) \<and>
   (- 1 :: int) < 0 \<and>
   fetchWithRetry builtin_defaults alwaysOk ''http://x/''
       \<lparr>opts_retries = Some (- 1), opts_backoffBase = None\<rparr> =
     \<lparr>outcome = Inl (Err \<lparr>err_name = Some ''Error'', err_code = None,
                          err_message = ''fetch-with-retries: failed to fetch http://x/''\<rparr>),
      attempts = 0, sleeps = []\<rparr>"
  using negative_retries_no_attempt
          [of "\<lparr>opts_retries = Some (- 1), opts_backoffBase = None\<rparr>" "- 1"
              builtin_defaults alwaysOk "''http://x/''"]
  by simp

subsection \<open>Classification\<close>

text \<open>
  Claim C6: \<open>isTransientError\<close> is a function of the thrown value alone, and it holds
  exactly for an error object whose code is one of \<^verbatim>\<open>ECONNRESET\<close>, \<^verbatim>\<open>ETIMEDOUT\<close>,
  \<^verbatim>\<open>EAI_AGAIN\<close>, \<^verbatim>\<open>ENOTFOUND\<close>, \<^verbatim>\<open>EPIPE\<close>, \<^verbatim>\<open>ECONNREFUSED\<close>, or whose name is
  \<^verbatim>\<open>FetchError\<close> or \<^verbatim>\<open>AbortError\<close>; every other thrown value is fatal.
\<close>

theorem isTransientError_iff:
  "isTransientError v =
     (\<exists>e. v = Err e \<and>
        (err_code e = Some ''ECONNRESET'' \<or> err_code e = Some ''ETIMEDOUT''
         \<or> err_code e = Some ''EAI_AGAIN'' \<or> err_code e = Some ''ENOTFOUND''
         \<or> err_code e = Some ''EPIPE'' \<or> err_code e = Some ''ECONNREFUSED''
         \<or> err_name e = Some ''FetchError'' \<or> err_name e = Some ''AbortError''))"
  by (cases v) (auto simp: transientCodes_def split: option.splits)

text \<open>
  Claim C5: take a call with a retry count of at least 0 in which the attempts before
  attempt \<open>k\<close> all end in \<^verbatim>\<open>continue\<close>, so that attempt \<open>k\<close> is made, and let attempt \<open>k\<close>
  complete with a response that is not ok. Then another attempt follows exactly when
  the status is 429 or lies in \<open>[500, 600)\<close> and budget remains; with any other status
  the call ends at this attempt and returns the response (after the snippet read), with
  no further attempt.
\<close>

theorem status_retry_eligibility:
  assumes "0 \<le> retries_of D opts" and "1 \<le> k"
    and "\<forall>j. 1 \<le> j \<and> j < k \<longrightarrow> continues w url (retries_of D opts) j"
    and "fetch w url k = Resolved res" and "\<not> ok res"
  shows "k \<le> attempts (fetchWithRetry D w url opts)
       \<and> (k < attempts (fetchWithRetry D w url opts)) =
           ((status res = 429 \<or> (500 \<le> status res \<and> status res < 600))
            \<and> int k \<le> retries_of D opts)
       \<and> (\<not> (status res = 429 \<or> (500 \<le> status res \<and> status res < 600)) \<longrightarrow>
            attempts (fetchWithRetry D w url opts) = k \<and>
            outcome (fetchWithRetry D w url opts) = Inr (snd (readResponseSnippet res 1500)))"
proof -
  have made: "k \<le> attempts (fetchWithRetry D w url opts)"
    by (rule continues_prefix_le [OF assms(1-3)])
  from made_attempt_cases [OF assms(2) made] assms(4,5) made show ?thesis
    by (auto simp: continues_def finalOutcome_def)
qed

text \<open>
  With the built-in three retries, a second answer of 429 is followed by a third attempt;
  a 404 on attempt 1 ends the call there.
\<close>

theorem status_retry_eligibility_witness:
  "0 \<le> retries_of builtin_defaults noOptions
   \<and> fetch always429 ''u'' 2 = Resolved (mkResponse 429 None ''xx'')
   \<and> \<not> ok (mkResponse 429 None ''xx'')
   \<and> status (mkResponse 429 None ''xx'') = 429
   \<and> int 2 \<le> retries_of builtin_defaults noOptions
   \<and> 2 < attempts (fetchWithRetry builtin_defaults always429 ''u'' noOptions)
   \<and> attempts (fetchWithRetry builtin_defaults always429 ''u'' noOptions) = 4
   \<and> fetch always404 ''u'' 1 = Resolved (mkResponse 404 None ''not found'')
   \<and> \<not> ok (mkResponse 404 None ''not found'')
   \<and> attempts (fetchWithRetry builtin_defaults always404 ''u'' noOptions) = 1
   \<and> outcome (fetchWithRetry builtin_defaults always404 ''u'' noOptions) =
       Inr (snd (readResponseSnippet (mkResponse 404 None ''not found'') 1500))"
proof -
  have r: "0 \<le> retries_of builtin_defaults noOptions"
    by (simp add: world_simps)
  have k2: "(1::nat) \<le> 2" by simp
  have p2: "\<forall>j. 1 \<le> j \<and> j < 2 \<longrightarrow>
              continues always429 ''u'' (retries_of builtin_defaults noOptions) j"
    by (auto simp: continues_def always429_def world_simps)
  have f2: "fetch always429 ''u'' 2 = Resolved (mkResponse 429 None ''xx'')"
    by (simp add: always429_def mkWorld_def eval_nat_numeral)
  have n2: "\<not> ok (mkResponse 429 None ''xx'')"
    by (simp add: mkResponse_def)
  have s2: "status (mkResponse 429 None ''xx'') = 429"
    by (simp add: mkResponse_def)
  have b2: "int 2 \<le> retries_of builtin_defaults noOptions"
    by (simp add: world_simps)
  from status_retry_eligibility [OF r k2 p2 f2 n2] s2 b2
  have retried: "2 < attempts (fetchWithRetry builtin_defaults always429 ''u'' noOptions)"
    by simp
  have four: "attempts (fetchWithRetry builtin_defaults always429 ''u'' noOptions) = 4"
    by (simp add: run_simps world_simps always429_def)
  have k1: "(1::nat) \<le> 1" by simp
  have p1: "\<forall>j. 1 \<le> j \<and> j < 1 \<longrightarrow>
              continues always404 ''u'' (retries_of builtin_defaults noOptions) j"
    by simp
  have f1: "fetch always404 ''u'' 1 = Resolved (mkResponse 404 None ''not found'')"
    by (simp add: always404_def mkWorld_def)
  have n1: "\<not> ok (mkResponse 404 None ''not found'')"
    by (simp add: mkResponse_def)
  have s1: "\<not> (status (mkResponse 404 None ''not found'') = 429
              \<or> (500 \<le> status (mkResponse 404 None ''not found'')
                  \<and> status (mkResponse 404 None ''not found'') < 600))"
    by (simp add: mkResponse_def)
  from status_retry_eligibility [OF r k1 p1 f1 n1] s1
  have terminal: "attempts (fetchWithRetry builtin_defaults always404 ''u'' noOptions) = 1
     \<and> outcome (fetchWithRetry builtin_defaults always404 ''u'' noOptions) =
         Inr (snd (readResponseSnippet (mkResponse 404 None ''not found'') 1500))"
    by blast
  from r f2 n2 s2 b2 retried four f1 n1 terminal show ?thesis
    by blast
qed

subsection \<open>How a call ends\<close>

text \<open>
  Claim C7: take a call with a retry count of at least 0 in which the attempts before
  attempt \<open>k\<close> all end in \<^verbatim>\<open>continue\<close>, so that attempt \<open>k\<close> is made, and let attempt \<open>k\<close>
  raise a transport error that is fatal, or transient with no budget left. Then the
  call raises that same error and attempt \<open>k\<close> is its last. In particular a fatal error
  on attempt 1 ends the call with one attempt made.
\<close>

theorem unretried_error_reraised:
  "(0 \<le> retries_of D opts \<and> 1 \<le> k
      \<and> (\<forall>j. 1 \<le> j \<and> j < k \<longrightarrow> continues w url (retries_of D opts) j)
      \<and> fetch w url k = Rejected err
      \<and> (\<not> isTransientError err \<or> retries_of D opts < int k)
    \<longrightarrow> outcome (fetchWithRetry D w url opts) = Inl err
        \<and> attempts (fetchWithRetry D w url opts) = k)
   \<and> (0 \<le> retries_of D opts \<and> fetch w url 1 = Rejected err \<and> \<not> isTransientError err
    \<longrightarrow> outcome (fetchWithRetry D w url opts) = Inl err
        \<and> attempts (fetchWithRetry D w url opts) = 1)"
proof -
  have general: "outcome (fetchWithRetry D w url opts) = Inl err
        \<and> attempts (fetchWithRetry D w url opts) = i"
    if "0 \<le> retries_of D opts" "1 \<le> i"
       "\<forall>j. 1 \<le> j \<and> j < i \<longrightarrow> continues w url (retries_of D opts) j"
       "fetch w url i = Rejected err"
       "\<not> isTransientError err \<or> retries_of D opts < int i" for i
  proof -
    have made: "i \<le> attempts (fetchWithRetry D w url opts)"
      by (rule continues_prefix_le [OF that(1-3)])
    from made_attempt_cases [OF that(2) made] that(4,5) show ?thesis
      by (auto simp: continues_def finalOutcome_def)
  qed
  have first: "outcome (fetchWithRetry D w url opts) = Inl err
        \<and> attempts (fetchWithRetry D w url opts) = 1"
    if "0 \<le> retries_of D opts" "fetch w url 1 = Rejected err" "\<not> isTransientError err"
    using general [of 1] that by simp
  from general first show ?thesis by blast
qed

text \<open>
  With one retry and a connection that always times out, attempt 1 is retried and the
  timeout of attempt 2 is what the call raises; a permission error on attempt 1 is raised
  at once.
\<close>

theorem unretried_error_reraised_witness:
  "0 \<le> retries_of builtin_defaults \<lparr>opts_retries = Some 1, opts_backoffBase = None\<rparr>
   \<and> fetch alwaysTimedOut ''u'' 2 = Rejected (Err timedOutError)
   \<and> isTransientError (Err timedOutError)
   \<and> retries_of builtin_defaults \<lparr>opts_retries = Some 1, opts_backoffBase = None\<rparr> < int 2
   \<and> outcome (fetchWithRetry builtin_defaults alwaysTimedOut ''u''
                \<lparr>opts_retries = Some 1, opts_backoffBase = None\<rparr>) = Inl (Err timedOutError)
   \<and> attempts (fetchWithRetry builtin_defaults alwaysTimedOut ''u''
                 \<lparr>opts_retries = Some 1, opts_backoffBase = None\<rparr>) = 2
   \<and> 0 \<le> retries_of builtin_defaults noOptions
   \<and> fetch alwaysFatal ''u'' 1 = Rejected (Err permissionError)
   \<and> \<not> isTransientError (Err permissionError)
   \<and> outcome (fetchWithRetry builtin_defaults alwaysFatal ''u'' noOptions)
       = Inl (Err permissionError)
   \<and> attempts (fetchWithRetry builtin_defaults alwaysFatal ''u'' noOptions) = 1"
proof -
  have r1: "0 \<le> retries_of builtin_defaults \<lparr>opts_retries = Some 1, opts_backoffBase = None\<rparr>"
    by (simp add: retries_of_def)
  have t: "isTransientError (Err timedOutError)"
    by (simp add: timedOutError_def transientCodes_def)
  have p: "\<forall>j. 1 \<le> j \<and> j < 2 \<longrightarrow>
             continues alwaysTimedOut ''u''
               (retries_of builtin_defaults \<lparr>opts_retries = Some 1, opts_backoffBase = None\<rparr>) j"
    using t by (auto simp: continues_def alwaysTimedOut_def mkWorld_def retries_of_def)
  have f: "fetch alwaysTimedOut ''u'' 2 = Rejected (Err timedOutError)"
    by (simp add: alwaysTimedOut_def mkWorld_def)
  have x: "retries_of builtin_defaults \<lparr>opts_retries = Some 1, opts_backoffBase = None\<rparr> < int 2"
    by (simp add: retries_of_def)
  from unretried_error_reraised
         [of builtin_defaults "\<lparr>opts_retries = Some 1, opts_backoffBase = None\<rparr>" 2
             alwaysTimedOut "''u''" "Err timedOutError"]
       r1 p f x
  have exhausted:
    "outcome (fetchWithRetry builtin_defaults alwaysTimedOut ''u''
                \<lparr>opts_retries = Some 1, opts_backoffBase = None\<rparr>) = Inl (Err timedOutError)
     \<and> attempts (fetchWithRetry builtin_defaults alwaysTimedOut ''u''
                   \<lparr>opts_retries = Some 1, opts_backoffBase = None\<rparr>) = 2"
    by simp
  have r0: "0 \<le> retries_of builtin_defaults noOptions"
    by (simp add: world_simps)
  have g: "fetch alwaysFatal ''u'' 1 = Rejected (Err permissionError)"
    by (simp add: alwaysFatal_def mkWorld_def)
  have d: "\<not> isTransientError (Err permissionError)"
    by (simp add: permissionError_def transientCodes_def)
  from unretried_error_reraised
         [of builtin_defaults noOptions 1 alwaysFatal "''u''" "Err permissionError"]
       r0 g d
  have fatal: "outcome (fetchWithRetry builtin_defaults alwaysFatal ''u'' noOptions)
                 = Inl (Err permissionError)
     \<and> attempts (fetchWithRetry builtin_defaults alwaysFatal ''u'' noOptions) = 1"
    by simp
  from r1 f t x exhausted r0 g d fatal show ?thesis
    by blast
qed

text \<open>
  Claim C2, amended: in a call with a retry count of at least 0, an error is raised only
  when the last attempt made was rejected, and it is that rejection; every response
  that completes an attempt and is ok, or has a terminal status, or comes when the
  budget is spent, is returned to the caller and ends the call.
\<close>

theorem last_attempt_decides:
  assumes "0 \<le> retries_of D opts"
  shows "(outcome (fetchWithRetry D w url opts) = Inl e \<longrightarrow>
            fetch w url (attempts (fetchWithRetry D w url opts)) = Rejected e)
       \<and> (1 \<le> k \<and> k \<le> attempts (fetchWithRetry D w url opts) \<and> fetch w url k = Resolved res
          \<and> (ok res \<or> \<not> (status res = 429 \<or> (500 \<le> status res \<and> status res < 600))
                     \<or> retries_of D opts < int k) \<longrightarrow>
            attempts (fetchWithRetry D w url opts) = k \<and>
            outcome (fetchWithRetry D w url opts) =
              Inr (if ok res then res else snd (readResponseSnippet res 1500)))"
proof -
  from fetchWithRetry_run [OF assms, of w url] obtain n where
    n: "attempts (fetchWithRetry D w url opts) = n"
       "outcome (fetchWithRetry D w url opts) = finalOutcome w url n"
    by force
  have raised: "outcome (fetchWithRetry D w url opts) = Inl e \<longrightarrow>
            fetch w url (attempts (fetchWithRetry D w url opts)) = Rejected e"
    by (auto simp: n finalOutcome_def split: fetch_outcome.splits)
  have returned: "attempts (fetchWithRetry D w url opts) = k \<and>
            outcome (fetchWithRetry D w url opts) =
              Inr (if ok res then res else snd (readResponseSnippet res 1500))"
    if "1 \<le> k" "k \<le> attempts (fetchWithRetry D w url opts)" "fetch w url k = Resolved res"
       "ok res \<or> \<not> (status res = 429 \<or> (500 \<le> status res \<and> status res < 600))
          \<or> retries_of D opts < int k"
    using made_attempt_cases [OF that(1,2)] that(3,4)
    by (auto simp: continues_def finalOutcome_def)
  from raised returned show ?thesis by blast
qed

text \<open>With three retries and four answers of 429 the fourth response is returned; a fatal rejection is what the call raises.\<close>

theorem last_attempt_decides_witness:
  "0 \<le> retries_of builtin_defaults noOptions
   \<and> attempts (fetchWithRetry builtin_defaults always429 ''u'' noOptions) = 4
   \<and> fetch always429 ''u'' 4 = Resolved (mkResponse 429 None ''xxxx'')
   \<and> outcome (fetchWithRetry builtin_defaults always429 ''u'' noOptions) =
       Inr ((mkResponse 429 None ''xxxx'')\<lparr>bodyUsed := True\<rparr>)
   \<and> outcome (fetchWithRetry builtin_defaults alwaysFatal ''u'' noOptions) = Inl (Err permissionError)
   \<and> fetch alwaysFatal ''u'' (attempts (fetchWithRetry builtin_defaults alwaysFatal ''u'' noOptions))
       = Rejected (Err permissionError)"
proof -
  have a: "0 \<le> retries_of builtin_defaults noOptions"
    by (simp add: world_simps)
  have b: "attempts (fetchWithRetry builtin_defaults always429 ''u'' noOptions) = 4"
    by (simp add: run_simps world_simps always429_def)
  have c: "fetch always429 ''u'' 4 = Resolved (mkResponse 429 None ''xxxx'')"
    by (simp add: always429_def mkWorld_def eval_nat_numeral)
  have d: "retries_of builtin_defaults noOptions < int 4"
    by (simp add: world_simps)
  have e: "\<not> ok (mkResponse 429 None ''xxxx'')"
    by (simp add: mkResponse_def)
  have f: "snd (readResponseSnippet (mkResponse 429 None ''xxxx'') 1500)
           = (mkResponse 429 None ''xxxx'')\<lparr>bodyUsed := True\<rparr>"
    by (simp add: readResponseSnippet_def text_of_def mkResponse_def)
  have g: "outcome (fetchWithRetry builtin_defaults alwaysFatal ''u'' noOptions) = Inl (Err permissionError)"
    by (simp add: run_simps world_simps alwaysFatal_def permissionError_def transientCodes_def)
  from last_attempt_decides [OF a, of always429 "''u''" "Err permissionError" 4
          "mkResponse 429 None ''xxxx''"]
    b c d e f
  have h: "outcome (fetchWithRetry builtin_defaults always429 ''u'' noOptions) =
       Inr ((mkResponse 429 None ''xxxx'')\<lparr>bodyUsed := True\<rparr>)"
    by simp
  from last_attempt_decides [OF a, of alwaysFatal "''u''" "Err permissionError" 4
          "mkResponse 429 None ''xxxx''"] g
  have i: "fetch alwaysFatal ''u'' (attempts (fetchWithRetry builtin_defaults alwaysFatal ''u'' noOptions))
       = Rejected (Err permissionError)"
    by simp
  from a b c g h i show ?thesis by blast
qed

text \<open>With a retry count of -1 the call raises although no request was made, so no transport failure took place: the claim as stated fails there.\<close>

theorem raise_without_transport_failure_counterexample:
  "outcome (fetchWithRetry builtin_defaults alwaysOk ''u''
              \<lparr>opts_retries = Some (- 1), opts_backoffBase = None\<rparr>)
     = Inl (Err (genericError ''u''))
   \<and> attempts (fetchWithRetry builtin_defaults alwaysOk ''u''
                 \<lparr>opts_retries = Some (- 1), opts_backoffBase = None\<rparr>) = 0"
  by (simp add: run_simps world_simps)

text \<open>
  Claim C9, amended: a response that is not ok, that carries a body and that
  \<open>fetchWithRetry\<close> returns has had its body read by the snippet read; reading the body
  again fails.
\<close>

theorem returned_non_ok_body_consumed:
  assumes "outcome (fetchWithRetry D w url opts) = Inr res" and "\<not> ok res"
    and "body res \<noteq> None"
  shows "bodyUsed res \<and> fst (text_of res) = None"
proof -
  have ret: "0 \<le> retries_of D opts"
  proof (rule ccontr)
    assume "\<not> 0 \<le> retries_of D opts"
    with assms(1) show False by (simp add: fetchWithRetry_no_budget)
  qed
  from fetchWithRetry_run [OF ret, of w url] obtain n where
    "outcome (fetchWithRetry D w url opts) = finalOutcome w url n"
    by force
  with assms(1,2) obtain r where r: "res = snd (readResponseSnippet r 1500)"
    by (auto simp: finalOutcome_def split: fetch_outcome.splits if_splits)
  with assms(3) have "body r \<noteq> None"
    by (simp add: readResponseSnippet_fields)
  then have "bodyUsed res"
    unfolding r by (rule readResponseSnippet_used)
  with assms(3) show ?thesis
    by (auto simp: text_of_def)
qed

text \<open>The 404 response that the call returns has its body used, and reading it again fails.\<close>

theorem returned_non_ok_body_consumed_witness:
  "outcome (fetchWithRetry builtin_defaults always404 ''u'' noOptions)
     = Inr ((mkResponse 404 None ''not found'')\<lparr>bodyUsed := True\<rparr>)
   \<and> \<not> ok ((mkResponse 404 None ''not found'')\<lparr>bodyUsed := True\<rparr>)
   \<and> body ((mkResponse 404 None ''not found'')\<lparr>bodyUsed := True\<rparr>) \<noteq> None
   \<and> bodyUsed ((mkResponse 404 None ''not found'')\<lparr>bodyUsed := True\<rparr>)
   \<and> fst (text_of ((mkResponse 404 None ''not found'')\<lparr>bodyUsed := True\<rparr>)) = None"
proof -
  have a: "outcome (fetchWithRetry builtin_defaults always404 ''u'' noOptions)
     = Inr ((mkResponse 404 None ''not found'')\<lparr>bodyUsed := True\<rparr>)"
    by (simp add: run_simps world_simps always404_def)
  have b: "\<not> ok ((mkResponse 404 None ''not found'')\<lparr>bodyUsed := True\<rparr>)"
    by (simp add: mkResponse_def)
  have c: "body ((mkResponse 404 None ''not found'')\<lparr>bodyUsed := True\<rparr>) \<noteq> None"
    by (simp add: mkResponse_def)
  from returned_non_ok_body_consumed [OF a b c] a b c show ?thesis
    by blast
qed

text \<open>
  A 404 response with a null body is returned with its body not used, and reading it
  again gives the empty text once more: the claim as stated fails there.
\<close>

theorem returned_null_body_counterexample:
  "outcome (fetchWithRetry builtin_defaults headNotFound ''u'' noOptions)
     = Inr (nullBodyResponse 404)
   \<and> \<not> ok (nullBodyResponse 404)
   \<and> \<not> bodyUsed (nullBodyResponse 404)
   \<and> text_of (nullBodyResponse 404) = (Some [], nullBodyResponse 404)"
  by (simp add: run_simps world_simps headNotFound_def nullBodyResponse_def)

subsection \<open>The waits\<close>

text \<open>
  Claim C3, amended: when an attempt that the call makes completes with a retryable
  status while budget remains, and its Retry-After header parses as an integer \<open>H\<close> with
  \<open>0 < H\<close> and \<open>H \<le> MAX_RETRY_AFTER_SECS\<close>, the wait slept before the next attempt is
  exactly \<open>H * 1000\<close> milliseconds, whatever the attempt number.
\<close>

theorem retry_after_seconds_wait:
  assumes "1 \<le> k" and "k \<le> attempts (fetchWithRetry D w url opts)"
    and "fetch w url k = Resolved res" and "\<not> ok res"
    and "status res = 429 \<or> (500 \<le> status res \<and> status res < 600)"
    and "int k \<le> retries_of D opts"
    and "retryAfter res = Some ra" and "parseInt10 ra = Some H"
    and "0 < H" and "H \<le> MAX_RETRY_AFTER_SECS D"
  shows "k < attempts (fetchWithRetry D w url opts)
       \<and> sleeps (fetchWithRetry D w url opts) ! (k - 1) = (Header, H * 1000)"
proof -
  from assms(3-6) have "continues w url (retries_of D opts) k"
    by (simp add: continues_def)
  with made_attempt_cases [OF assms(1,2)]
  have lt: "k < attempts (fetchWithRetry D w url opts)" by blast
  have "retryAfterMs D w k (snd (readResponseSnippet res 1500)) = H * 1000"
    using retryAfterMs_integer [of "snd (readResponseSnippet res 1500)" ra H D w k] assms(7-10)
    by (simp add: readResponseSnippet_fields)
  with assms(9) have "statusWait D w (backoffBase_of D opts) k (snd (readResponseSnippet res 1500))
      = (Header, H * 1000)"
    by (simp add: statusWait_def)
  with sleeps_nth [OF assms(1) lt] assms(3) lt show ?thesis
    by (simp add: waitAfter_def)
qed

text \<open>A Retry-After of 7 seconds gives a wait of 7000 milliseconds.\<close>

theorem retry_after_seconds_wait_witness:
  "(1::nat) \<le> 1 \<and> 1 \<le> attempts (fetchWithRetry builtin_defaults (retryAfterThenOk ''7'') ''u'' noOptions)
   \<and> fetch (retryAfterThenOk ''7'') ''u'' 1 = Resolved (mkResponse 429 (Some ''7'') [])
   \<and> int 1 \<le> retries_of builtin_defaults noOptions
   \<and> parseInt10 ''7'' = Some 7 \<and> (0::int) < 7 \<and> 7 \<le> MAX_RETRY_AFTER_SECS builtin_defaults
   \<and> sleeps (fetchWithRetry builtin_defaults (retryAfterThenOk ''7'') ''u'' noOptions) ! (1 - 1)
       = (Header, 7 * 1000)"
proof -
  have a: "(1::nat) \<le> 1" by simp
  have b: "1 \<le> attempts (fetchWithRetry builtin_defaults (retryAfterThenOk ''7'') ''u'' noOptions)"
    by (simp add: run_simps world_simps parse_simps retryAfterThenOk_def)
  have c: "fetch (retryAfterThenOk ''7'') ''u'' 1 = Resolved (mkResponse 429 (Some ''7'') [])"
    by (simp add: retryAfterThenOk_def mkWorld_def)
  have d: "\<not> ok (mkResponse 429 (Some ''7'') [])"
    by (simp add: mkResponse_def)
  have e: "status (mkResponse 429 (Some ''7'') []) = 429
           \<or> (500 \<le> status (mkResponse 429 (Some ''7'') [])
               \<and> status (mkResponse 429 (Some ''7'') []) < 600)"
    by (simp add: mkResponse_def)
  have f: "int 1 \<le> retries_of builtin_defaults noOptions"
    by (simp add: world_simps)
  have g: "retryAfter (mkResponse 429 (Some ''7'') []) = Some ''7''"
    by (simp add: mkResponse_def)
  have h: "parseInt10 ''7'' = Some 7"
    by (simp add: parse_simps)
  have i: "(0::int) < 7" by simp
  have j: "7 \<le> MAX_RETRY_AFTER_SECS builtin_defaults"
    by (simp add: builtin_defaults_def)
  from retry_after_seconds_wait [OF a b c d e f g h i j] a b c f h i j show ?thesis
    by blast
qed

text \<open>A Retry-After of 0 seconds is not honoured: the wait is the backoff of 500 milliseconds, not 0.\<close>

theorem retry_after_zero_counterexample:
  "fetch (retryAfterThenOk ''0'') ''u'' 1 = Resolved (mkResponse 429 (Some ''0'') [])
   \<and> parseInt10 ''0'' = Some 0
   \<and> (0::int) \<le> MAX_RETRY_AFTER_SECS builtin_defaults
   \<and> attempts (fetchWithRetry builtin_defaults (retryAfterThenOk ''0'') ''u'' noOptions) = 2
   \<and> sleeps (fetchWithRetry builtin_defaults (retryAfterThenOk ''0'') ''u'' noOptions)
       = [(Backoff, 500)]
   \<and> (500::int) \<noteq> 0 * 1000"
  by (simp add: run_simps world_simps parse_simps retryAfterThenOk_def)







end
